theory Spec2Isabelle
  imports Complex_Main
begin

section \<open>Product sheets from EAN or SKU codes: the embedding of main.py\<close>

text \<open>
  The service looks a product up by EAN or SKU, composes a French description, keeps the
  product in an in-memory list and exports one product as a semicolon-delimited CSV file.

  Conventions of the embedding.
  \<^item> A Python \<open>str\<close> is the list of the bytes of its UTF-8 encoding. The operations the
    code applies to strings (concatenation, \<open>join\<close>, \<open>endswith(".")\<close>, emptiness, the
    CSV writer's search for \<open>;\<close>, \<open>"\<close>, CR and LF) give the same result on bytes as on
    code points, since those delimiters are ASCII. \<open>str.lower\<close> is computed on a text that
    is all ASCII; on any other text it is what the Unicode tables say, a parameter.
  \<^item> \<open>Optional[T]\<close> is \<open>T option\<close>; a Python \<open>float\<close> is a \<open>real\<close>, of which the code
    only observes whether it is zero and its \<open>str()\<close> text (a parameter).
  \<^item> What the libraries and the outside world do is collected in the record \<open>runtime\<close>;
    an exception raised by a library is a value \<open>Exception msg\<close>, an exception that
    leaves a function of the service is a value of type \<open>error\<close>.
\<close>

subsection \<open>Python values\<close>

definition truthy :: "'a list option \<Rightarrow> bool" where
  \<comment> \<open>\<open>bool(x)\<close> for an optional string or list: neither \<open>None\<close> nor empty\<close>
  "truthy x = (case x of None \<Rightarrow> False | Some s \<Rightarrow> s \<noteq> [])"

definition or_none :: "'a list option \<Rightarrow> 'a list option" where
  \<comment> \<open>\<open>x or None\<close> for an optional string or list\<close>
  "or_none x = (if truthy x then x else None)"

definition float_or_none :: "real option \<Rightarrow> real option" where
  \<comment> \<open>\<open>x or None\<close> for an optional float: zero is falsy\<close>
  "float_or_none x = (case x of None \<Rightarrow> None | Some v \<Rightarrow> if v \<noteq> 0 then Some v else None)"

definition or_empty :: "string option \<Rightarrow> string" where
  \<comment> \<open>\<open>x or ""\<close> for an optional string\<close>
  "or_empty x = (case x of None \<Rightarrow> [] | Some s \<Rightarrow> s)"

fun join :: "string \<Rightarrow> string list \<Rightarrow> string" where
  \<comment> \<open>\<open>sep.join(xs)\<close>\<close>
  "join sep [] = []"
| "join sep [x] = x"
| "join sep (x # y # ys) = x @ sep @ join sep (y # ys)"

definition endswith :: "string \<Rightarrow> string \<Rightarrow> bool" where
  \<comment> \<open>\<open>s.endswith(t)\<close>\<close>
  "endswith s t = (take (length t) (rev s) = rev t)"

definition e_acute :: string where
  \<comment> \<open>U+00E9\<close>
  "e_acute = [CHR 0xC3, CHR 0xA9]"

definition e_circumflex :: string where
  \<comment> \<open>U+00EA\<close>
  "e_circumflex = [CHR 0xC3, CHR 0xAA]"

definition a_grave :: string where
  \<comment> \<open>U+00E0\<close>
  "a_grave = [CHR 0xC3, CHR 0xA0]"

definition nbsp :: string where
  \<comment> \<open>U+00A0, the no-break space the source has before its colons\<close>
  "nbsp = [CHR 0xC2, CHR 0xA0]"

datatype exception = Exception string
  \<comment> \<open>an exception raised by a library; the string is \<open>str(exc)\<close>\<close>

datatype error =
    HTTPException int string  \<comment> \<open>\<open>HTTPException(status_code, detail)\<close>\<close>
  | RuntimeError string
  | ValueError string
  | TypeError nat
    \<comment> \<open>\<open>str.join\<close> on a sequence whose item number i is \<open>None\<close>:
        "sequence item i: expected str instance, NoneType found"\<close>

record http_request =
  url :: string
  data :: string
  req_headers :: "(string \<times> string) list"
  auth :: "string \<times> string"
  timeout :: nat

record http_response =
  status_code :: int
  resp_text :: string  \<comment> \<open>\<open>response.text\<close>\<close>

record runtime =
  translate :: "string \<Rightarrow> exception + string option"
    \<comment> \<open>\<open>GoogleTranslator(source="en", target="fr").translate\<close>: raises, or returns a
        \<open>str\<close>, or returns \<open>None\<close> (as it does for a text without letters or digits
        that comes back unchanged)\<close>
  unicode_lower :: "string \<Rightarrow> string"
    \<comment> \<open>\<open>str.lower\<close> of a text that is not all ASCII\<close>
  float_str :: "real \<Rightarrow> string"
    \<comment> \<open>\<open>str(x)\<close> of a float\<close>
  uuid4 :: "nat \<Rightarrow> string"
    \<comment> \<open>\<open>str(uuid.uuid4())\<close>: the value returned by the call number k of the process\<close>
  requests_post :: "http_request \<Rightarrow> exception + http_response"
    \<comment> \<open>\<open>requests.post\<close>: raises or returns the response of the remote shop\<close>

definition ascii :: "char \<Rightarrow> bool" where
  "ascii c = (of_char c < (128::nat))"

definition ascii_lower :: "char \<Rightarrow> char" where
  \<comment> \<open>A to Z become a to z\<close>
  "ascii_lower c =
     (if (65::nat) \<le> of_char c \<and> of_char c \<le> (90::nat) then char_of (of_char c + (32::nat)) else c)"

definition lower :: "runtime \<Rightarrow> string \<Rightarrow> string" where
  \<comment> \<open>\<open>s.lower()\<close>\<close>
  "lower rt s = (if list_all ascii s then map ascii_lower s else unicode_lower rt s)"

definition str_join :: "string \<Rightarrow> string option list \<Rightarrow> error + string" where
  \<comment> \<open>\<open>sep.join(items)\<close> where an item may be \<open>None\<close>: the first such item raises\<close>
  "str_join sep items =
     (if None \<in> set items then Inl (TypeError (length (takeWhile (\<lambda>x. x \<noteq> None) items)))
      else Inr (join sep (map the items)))"

subsection \<open>Data model\<close>

record SearchRequest =
  ean :: "string option"
  sku :: "string option"

text \<open>
  The fields of \<open>Product\<close> keep their names, with the suffix \<open>_p\<close> where the name is
  taken already (\<open>id\<close>, \<open>image\<close>, and \<open>ean\<close>, \<open>sku\<close> of the request).
\<close>

record Product =
  id_p :: string
  ean_p :: "string option"
  sku_p :: "string option"
  name :: string
  brand :: "string option"
  category :: "string option"
  price :: "real option"
  original_price :: "real option"
  description :: string
  features :: "string list option"
  image_p :: "string option"
  material :: "string option"
  type :: "string option"
  search_type :: string
  search_term :: string
  created_at :: string

datatype cell = Str string | Num real
  \<comment> \<open>a value of the row dictionary: a string or a float\<close>

definition to_prestashop_row :: "Product \<Rightarrow> (string \<times> cell) list" where
  \<comment> \<open>the dictionary, in insertion order\<close>
  "to_prestashop_row self =
     [(''Name'', Str (name self)),
      (''Price'', (case float_or_none (price self) of Some v \<Rightarrow> Num v | None \<Rightarrow> Str [])),
      (''Description'', Str (description self)),
      (''Reference'', Str (or_empty (sku_p self))),
      (''EAN'', Str (or_empty (ean_p self))),
      (''Category'', Str (or_empty (category self))),
      (''ImageURL'', Str (or_empty (image_p self))),
      (''Brand'', Str (or_empty (brand self)))]"

subsection \<open>The product store\<close>

type_synonym ProductDatabase = "Product list"
  \<comment> \<open>the list \<open>_products\<close>\<close>

definition init_db :: ProductDatabase where
  "init_db = []"

definition add :: "ProductDatabase \<Rightarrow> Product \<Rightarrow> ProductDatabase" where
  "add self product = self @ [product]"

definition get_all :: "ProductDatabase \<Rightarrow> Product list" where
  "get_all self = self"

fun get_by_id :: "ProductDatabase \<Rightarrow> string \<Rightarrow> Product option" where
  "get_by_id [] product_id = None"
| "get_by_id (prd # rest) product_id =
     (if id_p prd = product_id then Some prd else get_by_id rest product_id)"

subsection \<open>Lookup\<close>

text \<open>
  The dictionary a lookup returns has the keys name, brand, category, price,
  original_price, description, features, image, material and type, each of which may be
  missing: a record of optional fields, \<open>{}\<close> being the record of \<open>None\<close>s. The state
  keeps a log of the calls of the two lookup functions.
\<close>

record LookupData =
  l_name :: "string option"
  l_brand :: "string option"
  l_category :: "string option"
  l_price :: "real option"
  l_original_price :: "real option"
  l_description :: "string option"
  l_features :: "string list option"
  l_image :: "string option"
  l_material :: "string option"
  l_type :: "string option"

definition empty_dict :: LookupData where
  "empty_dict = \<lparr>l_name = None, l_brand = None, l_category = None, l_price = None,
     l_original_price = None, l_description = None, l_features = None, l_image = None,
     l_material = None, l_type = None\<rparr>"

datatype lookup_call = ByEan string | BySku string

definition lookup_product_by_ean :: "string \<Rightarrow> lookup_call list \<Rightarrow> LookupData \<times> lookup_call list" where
  "lookup_product_by_ean e calls = (empty_dict, calls @ [ByEan e])"

definition lookup_product_by_sku :: "string \<Rightarrow> lookup_call list \<Rightarrow> LookupData \<times> lookup_call list" where
  "lookup_product_by_sku s calls = (empty_dict, calls @ [BySku s])"

definition perform_product_lookup ::
  "SearchRequest \<Rightarrow> lookup_call list \<Rightarrow> LookupData \<times> lookup_call list" where
  "perform_product_lookup search_req calls =
     (case or_none (ean search_req) of
        Some e \<Rightarrow> lookup_product_by_ean e calls
      | None \<Rightarrow>
         (case or_none (sku search_req) of
            Some s \<Rightarrow> lookup_product_by_sku s calls
          | None \<Rightarrow> (empty_dict, calls)))"

subsection \<open>The description generator\<close>

text \<open>
  The two calls of the translator are inside \<open>try\<close> blocks, the two \<open>join\<close>s are not:
  a translation that raises is replaced by the text, a translation that is \<open>None\<close> is
  appended as it is and makes the next \<open>join\<close> raise a \<open>TypeError\<close>. So the lists
  \<open>features_fr\<close> and \<open>parts\<close> hold optional strings, and the result is an error or a
  string.
\<close>

fun translate_features ::
  "runtime \<Rightarrow> string list \<Rightarrow> string option list \<Rightarrow> string option list" where
  \<comment> \<open>the loop over \<open>features\<close>; the last argument is \<open>features_fr\<close>\<close>
  "translate_features rt [] features_fr = features_fr"
| "translate_features rt (feat # rest) features_fr =
     translate_features rt rest
       (case translate rt feat of
          Inr t \<Rightarrow> features_fr @ [t]
        | Inl exc \<Rightarrow> features_fr @ [Some feat])"

definition generate_french_description ::
  "runtime \<Rightarrow> string \<Rightarrow> string option \<Rightarrow> string option \<Rightarrow> string list option \<Rightarrow>
   string option \<Rightarrow> error + string" where
  "generate_french_description rt nm brnd cat feats english_desc =
     (let parts0 = [];
          parts1 =
            (if nm \<noteq> [] then
               (case or_none brnd of
                  Some b \<Rightarrow>
                    parts0 @ [Some (''D'' @ e_acute @ ''couvrez '' @ nm @ '' de la marque '' @ b @ ''.'')]
                | None \<Rightarrow> parts0 @ [Some (''D'' @ e_acute @ ''couvrez '' @ nm @ ''.'')])
             else parts0);
          parts2 =
            (case or_none cat of
               Some c \<Rightarrow> parts1 @ [Some (''Il s'' @ [CHR 0x27] @ ''agit d'' @ [CHR 0x27] @ ''un(e) ''
                                          @ lower rt c @ ''.'')]
             | None \<Rightarrow> parts1);
          parts3 =
            (case or_none feats of
               Some fs \<Rightarrow>
                 (case str_join ''; '' (translate_features rt fs []) of
                    Inl e \<Rightarrow> Inl e
                  | Inr joined \<Rightarrow>
                      Inr (parts2 @ [Some (''Caract'' @ e_acute @ ''ristiques principales'' @ nbsp
                                           @ '': '' @ joined @ ''.'')]))
             | None \<Rightarrow> Inr parts2)
      in case parts3 of
           Inl e \<Rightarrow> Inl e
         | Inr parts3' \<Rightarrow>
             (let parts4 =
                    (case or_none english_desc of
                       Some d \<Rightarrow>
                         (case translate rt d of
                            Inr translation \<Rightarrow> parts3' @ [translation]
                          | Inl exc \<Rightarrow> parts3' @ [Some d])
                     | None \<Rightarrow> parts3')
              in case str_join '' '' parts4 of
                   Inl e \<Rightarrow> Inl e
                 | Inr descr \<Rightarrow> Inr (if \<not> endswith descr ''.'' then descr @ ''.'' else descr)))"

subsection \<open>The CSV writer\<close>

text \<open>
  \<open>csv.DictWriter(buffer, fieldnames, delimiter=';')\<close> writes with the excel dialect:
  quote character \<open>"\<close>, doubled inside a quoted field, line terminator CR LF, and
  minimal quoting: a field is quoted when it holds the delimiter, the quote character,
  CR or LF. A row that is a single empty field is written as two quote characters.
\<close>

definition delimiter :: char where
  "delimiter = CHR '';''"

definition quotechar :: char where
  "quotechar = CHR 0x22"

definition lineterminator :: string where
  "lineterminator = [CHR 0x0D, CHR 0x0A]"

definition must_quote :: "char \<Rightarrow> bool" where
  "must_quote c = (c = delimiter \<or> c = quotechar \<or> c \<in> set lineterminator)"

fun join_append_data :: "string \<Rightarrow> string" where
  \<comment> \<open>copies the field, writing the quote character twice\<close>
  "join_append_data [] = []"
| "join_append_data (c # cs) =
     (if c = quotechar then quotechar # c # join_append_data cs else c # join_append_data cs)"

definition join_append :: "string \<Rightarrow> string" where
  "join_append field =
     (if list_ex must_quote field then quotechar # join_append_data field @ [quotechar]
      else join_append_data field)"

definition writer_writerow :: "string list \<Rightarrow> string" where
  "writer_writerow row =
     (if row = [[]] then [quotechar, quotechar]
      else join [delimiter] (map join_append row)) @ lineterminator"

definition cell_str :: "runtime \<Rightarrow> cell \<Rightarrow> string" where
  \<comment> \<open>the writer takes a string as it is and \<open>str()\<close> of anything else\<close>
  "cell_str rt c = (case c of Str s \<Rightarrow> s | Num x \<Rightarrow> float_str rt x)"

definition dict_to_list :: "string list \<Rightarrow> (string \<times> cell) list \<Rightarrow> error + cell list" where
  \<comment> \<open>\<open>DictWriter._dict_to_list\<close>: a key outside \<open>fieldnames\<close> raises, a missing one is \<open>''\<close>\<close>
  "dict_to_list fieldnames rowdict =
     (if list_ex (\<lambda>k. k \<notin> set fieldnames) (map fst rowdict)
      then Inl (ValueError ''dict contains fields not in fieldnames'')
      else Inr (map (\<lambda>key. case map_of rowdict key of Some v \<Rightarrow> v | None \<Rightarrow> Str []) fieldnames))"

definition DictWriter_writerow ::
  "runtime \<Rightarrow> string list \<Rightarrow> (string \<times> cell) list \<Rightarrow> error + string" where
  "DictWriter_writerow rt fieldnames rowdict =
     (case dict_to_list fieldnames rowdict of
        Inl e \<Rightarrow> Inl e
      | Inr cells \<Rightarrow> Inr (writer_writerow (map (cell_str rt) cells)))"

definition DictWriter_writeheader :: "runtime \<Rightarrow> string list \<Rightarrow> error + string" where
  \<comment> \<open>\<open>writerow(dict(zip(fieldnames, fieldnames)))\<close>\<close>
  "DictWriter_writeheader rt fieldnames =
     DictWriter_writerow rt fieldnames (zip fieldnames (map Str fieldnames))"

subsection \<open>The state of the process and the routes\<close>

record world =
  products_db :: ProductDatabase
  uuid_calls :: nat  \<comment> \<open>how many times \<open>uuid.uuid4()\<close> has been called\<close>
  lookup_log :: "lookup_call list"  \<comment> \<open>the calls of the lookup functions, oldest first\<close>

definition init_world :: world where
  "init_world = \<lparr>products_db = init_db, uuid_calls = 0, lookup_log = []\<rparr>"

text \<open>
  \<open>search_product\<close> takes the reading \<open>now\<close> of the clock, already in ISO format. Its
  JSON answer \<open>{"success": true, "product": product.dict()}\<close> is the product itself.
  An error of the description generator leaves the handler before \<open>uuid4\<close> is called
  and before anything is stored, the lookup having run.
\<close>

definition search_product ::
  "runtime \<Rightarrow> string \<Rightarrow> SearchRequest \<Rightarrow> world \<Rightarrow> (error + Product) \<times> world" where
  "search_product rt now payload w =
     (if \<not> truthy (ean payload) \<and> \<not> truthy (sku payload) then
        (Inl (HTTPException 400
           (''Veuillez fournir un code EAN ou une r'' @ e_acute @ ''f'' @ e_acute @ ''rence SKU.'')), w)
      else
        (let (lookup_data, calls) = perform_product_lookup payload (lookup_log w);
             s_term = (case or_none (ean payload) of Some e \<Rightarrow> e | None \<Rightarrow> or_empty (sku payload));
             s_type = (if truthy (ean payload) then ''EAN'' else ''SKU'');
             nm = (case or_none (l_name lookup_data) of
                     Some n \<Rightarrow> n
                   | None \<Rightarrow>
                       (if s_term \<noteq> [] then ''Produit '' @ s_type @ '' '' @ s_term
                        else ''Produit inconnu''));
             brnd = or_none (l_brand lookup_data);
             cat = or_none (l_category lookup_data);
             prc = float_or_none (l_price lookup_data);
             orig = float_or_none (l_original_price lookup_data);
             english_desc = or_none (l_description lookup_data);
             feats = or_none (l_features lookup_data);
             img = or_none (l_image lookup_data);
             mat = or_none (l_material lookup_data);
             prod_type = or_none (l_type lookup_data)
         in case generate_french_description rt nm brnd cat feats english_desc of
              Inl e \<Rightarrow> (Inl e, w\<lparr>lookup_log := calls\<rparr>)
            | Inr description_fr \<Rightarrow>
                (let product = \<lparr>id_p = uuid4 rt (uuid_calls w),
                                ean_p = ean payload,
                                sku_p = sku payload,
                                name = nm,
                                brand = brnd,
                                category = cat,
                                price = prc,
                                original_price = orig,
                                description = description_fr,
                                features = feats,
                                image_p = img,
                                material = mat,
                                type = prod_type,
                                search_type = s_type,
                                search_term = s_term,
                                created_at = now\<rparr>
                 in (Inr product,
                     \<lparr>products_db = add (products_db w) product,
                      uuid_calls = Suc (uuid_calls w),
                      lookup_log = calls\<rparr>))))"

definition get_products :: "world \<Rightarrow> Product list" where
  "get_products w = get_all (products_db w)"

record Response =
  content :: string
  media_type :: string
  headers :: "(string \<times> string) list"

definition export_prestashop_csv :: "runtime \<Rightarrow> string \<Rightarrow> world \<Rightarrow> error + Response" where
  "export_prestashop_csv rt product_id w =
     (case get_by_id (products_db w) product_id of
        None \<Rightarrow> Inl (HTTPException 404 (''Produit non trouv'' @ e_acute))
      | Some product \<Rightarrow>
          (let fieldnames = map fst (to_prestashop_row product)
           in case DictWriter_writeheader rt fieldnames of
                Inl e \<Rightarrow> Inl e
              | Inr header_text \<Rightarrow>
                  (case DictWriter_writerow rt fieldnames (to_prestashop_row product) of
                     Inl e \<Rightarrow> Inl e
                   | Inr row_text \<Rightarrow>
                       Inr \<lparr>content = header_text @ row_text,
                            media_type = ''text/csv'',
                            headers = [(''Content-Disposition'',
                              ''attachment; filename='' @ ''fiche_'' @ id_p product @ ''.csv'')]\<rparr>)))"

definition health_check :: "world \<Rightarrow> string \<times> nat" where
  \<comment> \<open>the status and \<open>products_count\<close>\<close>
  "health_check w = (''OK'', length (get_all (products_db w)))"

text \<open>Requests to \<open>/api/search\<close> served one after the other, each with its clock reading.\<close>

fun serve :: "runtime \<Rightarrow> (string \<times> SearchRequest) list \<Rightarrow> world \<Rightarrow> (error + Product) list \<times> world" where
  "serve rt [] w = ([], w)"
| "serve rt ((now, payload) # rest) w =
     (let (r, w') = search_product rt now payload w;
          (rs, w'') = serve rt rest w'
      in (r # rs, w''))"

subsection \<open>Creating the product in the remote shop\<close>

record config =
  PRESTASHOP_BASE_URL :: "string option"
  PRESTASHOP_API_KEY :: "string option"

definition whitespace :: "char \<Rightarrow> bool" where
  \<comment> \<open>the ASCII characters \<open>str.strip()\<close> removes\<close>
  "whitespace c = (c \<in> set [CHR '' '', CHR 0x09, CHR 0x0A, CHR 0x0B, CHR 0x0C, CHR 0x0D,
                              CHR 0x1C, CHR 0x1D, CHR 0x1E, CHR 0x1F])"

definition strip :: "string \<Rightarrow> string" where
  "strip s = rev (dropWhile whitespace (rev (dropWhile whitespace s)))"

definition product_xml :: "runtime \<Rightarrow> Product \<Rightarrow> string" where
  "product_xml rt product =
     strip (join [CHR 0x0A]
       ['''',
        ''    <prestashop xmlns:xlink=\"http://www.w3.org/1999/xlink\">'',
        ''      <product>'',
        ''        <active>1</active>'',
        ''        <name>'',
        ''          <language id=\"1\">'' @ name product @ ''</language>'',
        ''        </name>'',
        ''        <price>''
          @ (case float_or_none (price product) of Some v \<Rightarrow> float_str rt v | None \<Rightarrow> ''0'')
          @ ''</price>'',
        ''        <reference>'' @ or_empty (sku_p product) @ ''</reference>'',
        ''        <ean13>'' @ or_empty (ean_p product) @ ''</ean13>'',
        ''        <description>'',
        ''          <language id=\"1\">'' @ description product @ ''</language>'',
        ''        </description>'',
        ''        <id_category_default>2</id_category_default>'',
        ''        <associations>'',
        ''          <categories>'',
        ''            <category>'',
        ''              <id>2</id>'',
        ''            </category>'',
        ''          </categories>'',
        ''        </associations>'',
        ''      </product>'',
        ''    </prestashop>'',
        ''    ''])"

text \<open>
  The last argument is the list of the requests sent to the remote shop so far; the
  result holds the list afterwards.
\<close>

definition create_product_in_prestashop ::
  "runtime \<Rightarrow> config \<Rightarrow> Product \<Rightarrow> http_request list \<Rightarrow> (error + unit) \<times> http_request list" where
  "create_product_in_prestashop rt cfg product sent =
     (if \<not> truthy (PRESTASHOP_BASE_URL cfg) \<or> \<not> truthy (PRESTASHOP_API_KEY cfg) then
        (Inl (RuntimeError
           (''PRESTASHOP_BASE_URL et PRESTASHOP_API_KEY doivent '' @ e_circumflex @ ''tre d''
            @ e_acute @ ''finis pour cr'' @ e_acute @ ''er un produit dans PrestaShop.'')), sent)
      else
        (let request = \<lparr>url = or_empty (PRESTASHOP_BASE_URL cfg) @ ''/api/products'',
                        data = product_xml rt product,
                        req_headers = [(''Content-Type'', ''application/xml''),
                                       (''Accept'', ''application/xml'')],
                        auth = (or_empty (PRESTASHOP_API_KEY cfg), ''''),
                        timeout = 10\<rparr>;
             sent' = sent @ [request]
         in case requests_post rt request of
              Inl (Exception exc) \<Rightarrow>
                (Inl (HTTPException 500
                   (''Erreur lors de l'' @ [CHR 0x27] @ ''appel '' @ a_grave @ '' PrestaShop''
                    @ nbsp @ '': '' @ exc)), sent')
            | Inr response \<Rightarrow>
                (if status_code response \<noteq> 200 \<and> status_code response \<noteq> 201 then
                   (Inl (HTTPException (status_code response)
                      (''Erreur API PrestaShop: '' @ resp_text response)), sent')
                 else (Inr (), sent'))))"

subsection \<open>Reading the exported text back\<close>

text \<open>
  What the rows and columns of a text in this dialect are: the reader's automaton.
  A record ends at CR, LF or CR LF; empty lines are skipped; inside a quoted field a
  doubled quote character stands for one.
\<close>

datatype reader_state = StartRecord | StartField | InField | InQuotedField | QuoteInQuotedField

definition line_end :: "char \<Rightarrow> bool" where
  "line_end c = (c = CHR 0x0D \<or> c = CHR 0x0A)"

fun reader :: "reader_state \<Rightarrow> string \<Rightarrow> string list \<Rightarrow> string \<Rightarrow> string list list" where
  \<comment> \<open>the state, the field and the record being read, the text left\<close>
  "reader st fld row [] = (if st = StartRecord then [] else [row @ [fld]])"
| "reader StartRecord fld row (c # cs) =
     (if line_end c then reader StartRecord [] [] cs
      else if c = quotechar then reader InQuotedField [] row cs
      else if c = delimiter then reader StartField [] (row @ [[]]) cs
      else reader InField [c] row cs)"
| "reader StartField fld row (c # cs) =
     (if line_end c then (row @ [[]]) # reader StartRecord [] [] cs
      else if c = quotechar then reader InQuotedField [] row cs
      else if c = delimiter then reader StartField [] (row @ [[]]) cs
      else reader InField [c] row cs)"
| "reader InField fld row (c # cs) =
     (if line_end c then (row @ [fld]) # reader StartRecord [] [] cs
      else if c = delimiter then reader StartField [] (row @ [fld]) cs
      else reader InField (fld @ [c]) row cs)"
| "reader InQuotedField fld row (c # cs) =
     (if c = quotechar then reader QuoteInQuotedField fld row cs
      else reader InQuotedField (fld @ [c]) row cs)"
| "reader QuoteInQuotedField fld row (c # cs) =
     (if c = quotechar then reader InQuotedField (fld @ [c]) row cs
      else if c = delimiter then reader StartField [] (row @ [fld]) cs
      else if line_end c then (row @ [fld]) # reader StartRecord [] [] cs
      else reader InField (fld @ [c]) row cs)"


subsection \<open>The properties, in the words of the specification\<close>

definition returns_text :: "runtime \<Rightarrow> string \<Rightarrow> bool" where
  \<comment> \<open>the translator raises on the text or returns a string for it, not \<open>None\<close>\<close>
  "returns_text rt s = (translate rt s \<noteq> Inr None)"

definition localized :: "runtime \<Rightarrow> string \<Rightarrow> string" where
  \<comment> \<open>the translation of a text, or the text itself when its translation fails\<close>
  "localized rt s = (case translate rt s of Inr (Some t) \<Rightarrow> t | Inr None \<Rightarrow> s | Inl exc \<Rightarrow> s)"

definition translated_texts :: "string list option \<Rightarrow> string option \<Rightarrow> string list" where
  \<comment> \<open>the texts the generator hands to the translator: the features, then the description\<close>
  "translated_texts feats english_desc =
     (case or_none feats of Some fs \<Rightarrow> fs | None \<Rightarrow> [])
     @ (case or_none english_desc of Some d \<Rightarrow> [d] | None \<Rightarrow> [])"

definition with_period :: "string \<Rightarrow> string" where
  \<comment> \<open>a period is appended exactly when the text does not end with one\<close>
  "with_period s = (if endswith s ''.'' then s else s @ ''.'')"

definition opening_part :: "string \<Rightarrow> string option \<Rightarrow> string list" where
  \<comment> \<open>the opening sentence, for a name that is not empty\<close>
  "opening_part nm brnd =
     (if nm = [] then []
      else if truthy brnd then
        [''D'' @ e_acute @ ''couvrez '' @ nm @ '' de la marque '' @ or_empty brnd @ ''.'']
      else [''D'' @ e_acute @ ''couvrez '' @ nm @ ''.''])"

definition stated_opening :: "string \<Rightarrow> string option \<Rightarrow> string list" where
  \<comment> \<open>the opening sentence as the specification words it: one for every name\<close>
  "stated_opening nm brnd =
     (if truthy brnd then
        [''D'' @ e_acute @ ''couvrez '' @ nm @ '' de la marque '' @ or_empty brnd @ ''.'']
      else [''D'' @ e_acute @ ''couvrez '' @ nm @ ''.''])"

definition category_part :: "runtime \<Rightarrow> string option \<Rightarrow> string list" where
  "category_part rt cat =
     (if truthy cat then
        [''Il s'' @ [CHR 0x27] @ ''agit d'' @ [CHR 0x27] @ ''un(e) '' @ lower rt (or_empty cat) @ ''.'']
      else [])"

definition features_label :: string where
  "features_label = ''Caract'' @ e_acute @ ''ristiques principales'' @ nbsp @ '': ''"

definition features_sentence :: "string list \<Rightarrow> string" where
  \<comment> \<open>the texts joined with \<open>"; "\<close> behind the label\<close>
  "features_sentence texts = features_label @ join ''; '' texts @ ''.''"

definition features_part :: "runtime \<Rightarrow> string list option \<Rightarrow> string list" where
  "features_part rt feats =
     (case feats of
        None \<Rightarrow> []
      | Some fs \<Rightarrow> if fs = [] then [] else [features_sentence (map (localized rt) fs)])"

definition english_part :: "runtime \<Rightarrow> string option \<Rightarrow> string list" where
  "english_part rt english_desc =
     (if truthy english_desc then [localized rt (or_empty english_desc)] else [])"

definition stated_description ::
  "runtime \<Rightarrow> string \<Rightarrow> string option \<Rightarrow> string option \<Rightarrow> string list option \<Rightarrow>
   string option \<Rightarrow> string" where
  \<comment> \<open>the description with an opening sentence for every name\<close>
  "stated_description rt nm brnd cat feats english_desc =
     with_period (join '' ''
       (stated_opening nm brnd @ category_part rt cat @ features_part rt feats
        @ english_part rt english_desc))"

fun successes :: "(error + Product) list \<Rightarrow> Product list" where
  \<comment> \<open>the products of the searches that succeeded, in the order of the searches\<close>
  "successes [] = []"
| "successes (Inr p # rs) = p # successes rs"
| "successes (Inl e # rs) = successes rs"

definition supplied :: "SearchRequest \<Rightarrow> bool" where
  \<comment> \<open>the request holds an EAN or a SKU\<close>
  "supplied payload = (truthy (ean payload) \<or> truthy (sku payload))"

definition server_error :: "error \<Rightarrow> bool" where
  \<comment> \<open>an HTTP error of the class 5xx\<close>
  "server_error e = (case e of HTTPException c d \<Rightarrow> 500 \<le> c \<and> c \<le> 599 | _ \<Rightarrow> False)"

definition success_status :: "int \<Rightarrow> bool" where
  \<comment> \<open>an HTTP status of the class 2xx\<close>
  "success_status c = (200 \<le> c \<and> c \<le> 299)"





definition ids_issued :: "runtime \<Rightarrow> world \<Rightarrow> bool" where
  \<comment> \<open>every identifier of the store is one of the values \<open>uuid4\<close> has returned so far\<close>
  "ids_issued rt w = (set (map id_p (products_db w)) \<subseteq> uuid4 rt ` {..<uuid_calls w})"

subsection \<open>Concrete inputs\<close>

definition demo_translate :: "string \<Rightarrow> exception + string option" where
  \<comment> \<open>raises on two texts, returns \<open>None\<close> for the text \<open>***\<close>\<close>
  "demo_translate s =
     (if s = ''waterproof'' \<or> s = ''A light shoe'' then Inl (Exception ''timed out'')
      else if s = ''***'' then Inr None
      else Inr (Some (''fr '' @ s)))"

definition demo_float_str :: "real \<Rightarrow> string" where
  \<comment> \<open>\<open>str(x)\<close> for the two prices of the examples, 0.0 and 9.5\<close>
  "demo_float_str x = (if x = 0 then ''0.0'' else ''9.5'')"

definition demo_same_uuid4 :: "nat \<Rightarrow> string" where
  "demo_same_uuid4 k = ''same''"

definition demo_uuid4 :: "nat \<Rightarrow> string" where
  "demo_uuid4 k = replicate (Suc k) (CHR ''a'')"

definition demo_post :: "http_request \<Rightarrow> exception + http_response" where
  "demo_post r = Inr \<lparr>status_code = 404, resp_text = ''Not Found''\<rparr>"

definition demo_runtime :: runtime where
  "demo_runtime = \<lparr>translate = demo_translate, unicode_lower = map id,
     float_str = demo_float_str, uuid4 = demo_uuid4, requests_post = demo_post\<rparr>"

definition demo_repeating :: runtime where
  \<comment> \<open>the same runtime with a \<open>uuid4\<close> that returns one value again\<close>
  "demo_repeating = demo_runtime\<lparr>uuid4 := demo_same_uuid4\<rparr>"

definition demo_config :: config where
  "demo_config = \<lparr>PRESTASHOP_BASE_URL = Some ''http://shop'', PRESTASHOP_API_KEY = Some ''key''\<rparr>"

definition demo_request :: SearchRequest where
  "demo_request = \<lparr>ean = Some ''40;12'', sku = Some ''AB\"1''\<rparr>"

definition demo_product :: Product where
  "demo_product = \<lparr>id_p = ''a'', ean_p = None, sku_p = Some ''AB1'', name = ''Chaussure'',
     brand = None, category = None, price = None, original_price = None,
     description = ''Chaussure.'', features = None, image_p = None, material = None,
     type = None, search_type = ''SKU'', search_term = ''AB1'', created_at = ''2024-01-01T10:00:00''\<rparr>"

definition demo_requests :: "(string \<times> SearchRequest) list" where
  "demo_requests =
     [(''2024-01-01T10:00:00'', demo_request),
      (''2024-01-01T10:00:05'', \<lparr>ean = None, sku = None\<rparr>),
      (''2024-01-01T10:00:09'', \<lparr>ean = Some '''', sku = Some ''AB1''\<rparr>)]"

definition demo_world :: world where
  \<comment> \<open>the state after the three requests: two products, with the identifiers a and aa\<close>
  "demo_world = snd (serve demo_runtime demo_requests init_world)"





definition demo_refused :: "http_request \<Rightarrow> exception + http_response" where
  "demo_refused r = Inl (Exception ''Connection refused'')"

definition demo_offline :: runtime where
  \<comment> \<open>the same runtime with a remote shop that cannot be reached\<close>
  "demo_offline = demo_runtime\<lparr>requests_post := demo_refused\<rparr>"

section \<open>Properties\<close>

subsection \<open>Python values\<close>

lemma truthy_Some_iff: "truthy (Some s) = (s \<noteq> [])"
  by (simp add: truthy_def)

lemma truthy_None: "\<not> truthy None"
  by (simp add: truthy_def)

lemma or_none_Some: "or_none x = Some s \<longleftrightarrow> x = Some s \<and> s \<noteq> []"
  by (cases x) (auto simp: or_none_def truthy_def)

lemma or_none_None: "or_none x = None \<longleftrightarrow> \<not> truthy x"
  by (cases x) (auto simp: or_none_def truthy_def)

lemma truthy_or_empty: "truthy x \<Longrightarrow> or_none x = Some (or_empty x)"
  by (cases x) (auto simp: or_none_def truthy_def or_empty_def)

lemma str_join_texts: "str_join sep (map Some xs) = Inr (join sep xs)"
  by (auto simp: str_join_def comp_def)

lemma str_join_mapped: "str_join sep (map (Some \<circ> g) xs) = Inr (join sep (map g xs))"
  using str_join_texts [of sep "map g xs"] by simp

subsection \<open>Requests without a code\<close>

text \<open>
  C2. A search request whose EAN and SKU are both absent or empty is answered with the
  HTTP error 400, and the state of the process, the product store included, is the one
  before the request.
\<close>

theorem search_without_code_is_rejected:
  assumes "\<not> truthy (ean payload)" and "\<not> truthy (sku payload)"
  shows "search_product rt now payload w =
           (Inl (HTTPException 400
              (''Veuillez fournir un code EAN ou une r'' @ e_acute @ ''f'' @ e_acute @ ''rence SKU.'')), w)"
  using assms by (simp add: search_product_def)

theorem search_without_code_is_rejected_witness:
  "search_product demo_runtime ''2024-01-01T10:00:00'' \<lparr>ean = None, sku = Some ''''\<rparr> init_world =
     (Inl (HTTPException 400
        (''Veuillez fournir un code EAN ou une r'' @ e_acute @ ''f'' @ e_acute @ ''rence SKU.'')), init_world)"
  using search_without_code_is_rejected
    [of "\<lparr>ean = None, sku = Some ''''\<rparr>" demo_runtime "''2024-01-01T10:00:00''" init_world]
  by (simp add: truthy_def)

subsection \<open>The remote shop: configuration\<close>

text \<open>
  C8. When the base URL or the API key of the remote shop is absent (or empty),
  \<open>create_product_in_prestashop\<close> raises a \<open>RuntimeError\<close>, which is not the
  \<open>HTTPException\<close> of a failed call, and no request has been sent: the list of the
  requests sent is unchanged.
\<close>

theorem missing_configuration_fails_before_any_call:
  assumes "\<not> truthy (PRESTASHOP_BASE_URL cfg) \<or> \<not> truthy (PRESTASHOP_API_KEY cfg)"
  shows "\<exists>msg. create_product_in_prestashop rt cfg product sent = (Inl (RuntimeError msg), sent)"
  using assms by (auto simp add: create_product_in_prestashop_def)

theorem missing_configuration_fails_before_any_call_witness:
  "\<exists>msg. create_product_in_prestashop demo_runtime
      \<lparr>PRESTASHOP_BASE_URL = Some ''http://shop'', PRESTASHOP_API_KEY = None\<rparr> demo_product [] =
      (Inl (RuntimeError msg), [])"
  using missing_configuration_fails_before_any_call
    [of "\<lparr>PRESTASHOP_BASE_URL = Some ''http://shop'', PRESTASHOP_API_KEY = None\<rparr>"
        demo_runtime demo_product "[]"]
  by (simp add: truthy_def)

subsection \<open>The description generator\<close>

lemma endswith_period_iff: "endswith s ''.'' \<longleftrightarrow> s \<noteq> [] \<and> last s = CHR ''.''"
  by (cases s rule: rev_cases) (auto simp: endswith_def)

lemma with_period_ends: "with_period s \<noteq> [] \<and> last (with_period s) = CHR ''.''"
  by (simp add: with_period_def endswith_period_iff)

lemma translate_features_acc:
  "translate_features rt fs acc =
     acc @ map (\<lambda>f. case translate rt f of Inr t \<Rightarrow> t | Inl exc \<Rightarrow> Some f) fs"
  by (induction fs arbitrary: acc) (auto split: sum.splits)

lemma translated_or_original:
  "returns_text rt f \<Longrightarrow>
   (case translate rt f of Inr t \<Rightarrow> t | Inl exc \<Rightarrow> Some f) = Some (localized rt f)"
  by (auto simp: returns_text_def localized_def split: sum.splits option.splits)

lemma translate_features_texts:
  assumes "\<forall>f\<in>set fs. returns_text rt f"
  shows "translate_features rt fs [] = map Some (map (localized rt) fs)"
  using assms by (simp add: translate_features_acc translated_or_original)

lemma generate_as_parts:
  assumes "\<forall>s\<in>set (translated_texts feats english_desc). returns_text rt s"
  shows "generate_french_description rt nm brnd cat feats english_desc =
     Inr (with_period (join '' ''
       (opening_part nm brnd @ category_part rt cat @ features_part rt feats
        @ english_part rt english_desc)))"
proof -
  have o: "(if nm \<noteq> [] then (case or_none brnd of
               Some b \<Rightarrow> [] @ [Some (''D'' @ e_acute @ ''couvrez '' @ nm @ '' de la marque '' @ b @ ''.'')]
             | None \<Rightarrow> [] @ [Some (''D'' @ e_acute @ ''couvrez '' @ nm @ ''.'')]) else [])
           = map Some (opening_part nm brnd)"
    by (cases brnd) (auto simp: opening_part_def or_none_def truthy_def or_empty_def)
  have c: "\<And>ps. (case or_none cat of
               Some c \<Rightarrow> map Some ps @ [Some (''Il s'' @ [CHR 0x27] @ ''agit d'' @ [CHR 0x27] @ ''un(e) ''
                                          @ lower rt c @ ''.'')]
             | None \<Rightarrow> map Some ps) = map Some (ps @ category_part rt cat)"
    by (cases cat) (auto simp: category_part_def or_none_def truthy_def or_empty_def)
  have f: "\<And>ps. (case or_none feats of
               Some fs \<Rightarrow>
                 (case str_join ''; '' (translate_features rt fs []) of
                    Inl e \<Rightarrow> Inl e
                  | Inr joined \<Rightarrow>
                      Inr (map Some ps @ [Some (''Caract'' @ e_acute @ ''ristiques principales'' @ nbsp
                                           @ '': '' @ joined @ ''.'')]))
             | None \<Rightarrow> Inr (map Some ps)) = Inr (map Some (ps @ features_part rt feats))"
  proof (cases "or_none feats")
    case None
    then show "\<And>ps. ?thesis ps"
      by (cases feats) (auto simp: features_part_def or_none_def truthy_def split: if_splits)
  next
    case (Some fs)
    then have fs: "feats = Some fs" "fs \<noteq> []" by (simp_all add: or_none_Some)
    have "\<forall>f\<in>set fs. returns_text rt f"
      using assms Some by (simp add: translated_texts_def)
    then have "translate_features rt fs [] = map Some (map (localized rt) fs)"
      by (rule translate_features_texts)
    then show "\<And>ps. ?thesis ps"
      using Some fs
      by (simp add: str_join_mapped features_part_def features_sentence_def features_label_def)
  qed
  have d: "\<And>ps. (case or_none english_desc of
               Some d \<Rightarrow>
                 (case translate rt d of
                    Inr translation \<Rightarrow> map Some ps @ [translation]
                  | Inl exc \<Rightarrow> map Some ps @ [Some d])
             | None \<Rightarrow> map Some ps) = map Some (ps @ english_part rt english_desc)"
  proof (cases "or_none english_desc")
    case None
    then have "\<not> truthy english_desc" by (simp add: or_none_None)
    with None show "\<And>ps. ?thesis ps"
      by (simp add: english_part_def)
  next
    case (Some t)
    then have t: "english_desc = Some t" "t \<noteq> []" by (simp_all add: or_none_Some)
    have "returns_text rt t"
      using assms Some by (simp add: translated_texts_def)
    then show "\<And>ps. ?thesis ps"
      using Some t
      by (auto simp: english_part_def truthy_def or_empty_def returns_text_def localized_def
          split: sum.splits option.splits)
  qed
  show ?thesis
    unfolding generate_french_description_def Let_def o c f sum.case d str_join_texts
      with_period_def
    by simp
qed

lemma generate_without_translation:
  "\<exists>d. generate_french_description rt nm brnd cat None None = Inr d \<and>
        d \<noteq> [] \<and> last d = CHR ''.''"
  using generate_as_parts [of None None rt nm brnd cat]
  by (simp add: translated_texts_def or_none_def truthy_def with_period_ends)

subsection \<open>Which lookup runs\<close>

lemma perform_lookup_ean:
  "truthy (ean payload) \<Longrightarrow>
   perform_product_lookup payload calls = (empty_dict, calls @ [ByEan (or_empty (ean payload))])"
  by (simp add: perform_product_lookup_def truthy_or_empty lookup_product_by_ean_def)

lemma perform_lookup_sku:
  "\<not> truthy (ean payload) \<Longrightarrow> truthy (sku payload) \<Longrightarrow>
   perform_product_lookup payload calls = (empty_dict, calls @ [BySku (or_empty (sku payload))])"
  by (simp add: perform_product_lookup_def truthy_or_empty lookup_product_by_sku_def
      iffD2 [OF or_none_None])

lemma search_product_supplied:
  assumes "supplied payload"
  shows "\<exists>p. search_product rt now payload w =
            (Inr p, \<lparr>products_db = products_db w @ [p], uuid_calls = Suc (uuid_calls w),
                     lookup_log = lookup_log w @
                       [if truthy (ean payload) then ByEan (or_empty (ean payload))
                        else BySku (or_empty (sku payload))]\<rparr>) \<and>
          id_p p = uuid4 rt (uuid_calls w) \<and>
          description p \<noteq> [] \<and> last (description p) = CHR ''.'' \<and>
          search_type p = (if truthy (ean payload) then ''EAN'' else ''SKU'') \<and>
          search_term p = (if truthy (ean payload) then or_empty (ean payload)
                           else or_empty (sku payload)) \<and>
          created_at p = now"
proof -
  have n: "or_none (None :: string option) = None" "or_none (None :: string list option) = None"
    by (simp_all add: or_none_def truthy_def)
  show ?thesis
  proof (cases "truthy (ean payload)")
    case True
    obtain dsc where g: "generate_french_description rt
        (''Produit EAN '' @ or_empty (ean payload)) None None None None = Inr dsc"
        "dsc \<noteq> []" "last dsc = CHR ''.''"
      using generate_without_translation by blast
    have ne: "or_empty (ean payload) \<noteq> []"
      using True by (cases "ean payload") (auto simp: truthy_def or_empty_def)
    from True g ne show ?thesis
      by (simp add: search_product_def perform_lookup_ean truthy_or_empty Let_def add_def
          empty_dict_def float_or_none_def n)
  next
    case False
    then have s: "truthy (sku payload)" using assms by (simp add: supplied_def)
    obtain dsc where g: "generate_french_description rt
        (''Produit SKU '' @ or_empty (sku payload)) None None None None = Inr dsc"
        "dsc \<noteq> []" "last dsc = CHR ''.''"
      using generate_without_translation by blast
    have ne: "or_empty (sku payload) \<noteq> []"
      using s by (cases "sku payload") (auto simp: truthy_def or_empty_def)
    from False s g ne show ?thesis
      by (simp add: search_product_def perform_lookup_sku Let_def add_def
          empty_dict_def float_or_none_def n iffD2 [OF or_none_None])
  qed
qed

lemma search_product_not_supplied:
  assumes "\<not> supplied payload"
  shows "\<exists>e. search_product rt now payload w = (Inl e, w)"
  using assms by (simp add: search_product_def supplied_def)

text \<open>
  C10. When a search request holds both an EAN and a SKU, the search succeeds, the only
  lookup call it adds to the log is the one by EAN with the EAN of the request (the
  lookup by SKU is not called), and the search term of the stored product is that EAN.
\<close>

theorem both_codes_use_the_ean_lookup_only:
  assumes "truthy (ean payload)" and "truthy (sku payload)"
  shows "\<exists>p w'. search_product rt now payload w = (Inr p, w') \<and>
           lookup_log w' = lookup_log w @ [ByEan (or_empty (ean payload))] \<and>
           search_term p = or_empty (ean payload) \<and>
           products_db w' = products_db w @ [p]"
proof -
  have "supplied payload" using assms(1) by (simp add: supplied_def)
  from search_product_supplied [OF this, of rt now w] assms(1) show ?thesis
    by auto
qed

theorem both_codes_use_the_ean_lookup_only_witness:
  "\<exists>p w'. search_product demo_runtime ''2024-01-01T10:00:00'' demo_request init_world = (Inr p, w') \<and>
           lookup_log w' = lookup_log init_world @ [ByEan ''40;12''] \<and>
           search_term p = ''40;12'' \<and>
           products_db w' = products_db init_world @ [p]"
  using both_codes_use_the_ean_lookup_only
    [of demo_request demo_runtime "''2024-01-01T10:00:00''" init_world]
  by (simp add: truthy_def demo_request_def or_empty_def)

subsection \<open>The export route\<close>

lemma get_by_id_None_iff: "get_by_id db pid = None \<longleftrightarrow> pid \<notin> id_p ` set db"
  by (induction db) auto

lemma get_by_id_SomeD: "get_by_id db pid = Some p \<Longrightarrow> p \<in> set db \<and> id_p p = pid"
  by (induction db) (auto split: if_splits)


lemma fieldnames_row:
  "map fst (to_prestashop_row p) =
     [''Name'', ''Price'', ''Description'', ''Reference'', ''EAN'', ''Category'', ''ImageURL'', ''Brand'']"
  by (simp add: to_prestashop_row_def)

lemma dict_to_list_row:
  "dict_to_list (map fst (to_prestashop_row p)) (to_prestashop_row p) = Inr (map snd (to_prestashop_row p))"
  by (simp add: to_prestashop_row_def dict_to_list_def)

lemma writeheader_row:
  "DictWriter_writeheader rt (map fst (to_prestashop_row p)) =
     Inr (writer_writerow (map fst (to_prestashop_row p)))"
  by (simp add: fieldnames_row DictWriter_writeheader_def DictWriter_writerow_def dict_to_list_def
      cell_str_def)

lemma export_found:
  assumes "get_by_id (products_db w) pid = Some p"
  shows "export_prestashop_csv rt pid w =
     Inr \<lparr>content = writer_writerow (map fst (to_prestashop_row p))
                    @ writer_writerow (map (cell_str rt) (map snd (to_prestashop_row p))),
          media_type = ''text/csv'',
          headers = [(''Content-Disposition'', ''attachment; filename=fiche_'' @ pid @ ''.csv'')]\<rparr>"
proof -
  have "id_p p = pid" using assms get_by_id_SomeD by blast
  then show ?thesis
    using assms
    by (simp add: export_prestashop_csv_def Let_def writeheader_row DictWriter_writerow_def
        dict_to_list_row)
qed

lemma export_missing:
  assumes "get_by_id (products_db w) pid = None"
  shows "export_prestashop_csv rt pid w = Inl (HTTPException 404 (''Produit non trouv'' @ e_acute))"
  using assms by (simp add: export_prestashop_csv_def)

text \<open>
  C4. The export of an identifier fails with the HTTP error 404 exactly when no product of
  the store has that identifier; when one has it, the export succeeds with a response of
  media type \<open>text/csv\<close> whose \<open>Content-Disposition\<close> header makes it the attachment
  \<open>fiche_<id>.csv\<close>.
\<close>

theorem export_not_found_iff_unknown:
  "((\<exists>detail. export_prestashop_csv rt pid w = Inl (HTTPException 404 detail))
      \<longleftrightarrow> pid \<notin> id_p ` set (products_db w)) \<and>
   (pid \<in> id_p ` set (products_db w) \<longrightarrow>
      (\<exists>r. export_prestashop_csv rt pid w = Inr r \<and> media_type r = ''text/csv'' \<and>
           headers r = [(''Content-Disposition'', ''attachment; filename=fiche_'' @ pid @ ''.csv'')]))"
proof (cases "get_by_id (products_db w) pid")
  case None
  then show ?thesis
    using export_missing [OF None, of rt] by (simp add: get_by_id_None_iff)
next
  case (Some p)
  have "pid \<in> id_p ` set (products_db w)"
    using Some get_by_id_None_iff [of "products_db w" pid] by simp
  then show ?thesis
    using export_found [OF Some, of rt] by simp
qed

lemma demo_world_ids: "map id_p (products_db demo_world) = [''a'', ''aa'']"
  by code_simp

theorem export_not_found_iff_unknown_witness:
  "(\<exists>r. export_prestashop_csv demo_runtime ''aa'' demo_world = Inr r \<and> media_type r = ''text/csv'' \<and>
        headers r = [(''Content-Disposition'', ''attachment; filename=fiche_aa.csv'')]) \<and>
   (\<exists>detail. export_prestashop_csv demo_runtime ''b'' demo_world = Inl (HTTPException 404 detail))"
proof -
  have known: "''aa'' \<in> id_p ` set (products_db demo_world)"
    using demo_world_ids by (simp flip: set_map)
  have unknown: "''b'' \<notin> id_p ` set (products_db demo_world)"
    using demo_world_ids by (simp flip: set_map)
  show ?thesis
    using export_not_found_iff_unknown [of demo_runtime "''aa''" demo_world]
      export_not_found_iff_unknown [of demo_runtime "''b''" demo_world] known unknown
    by simp
qed

subsection \<open>Sequences of searches\<close>

lemma search_product_db:
  "search_product rt now payload w = (r, w') \<Longrightarrow>
   products_db w' = products_db w @ successes [r] \<and>
   length (successes [r]) = (if supplied payload then 1 else 0)"
  using search_product_supplied [of payload rt now w] search_product_not_supplied [of payload rt now w]
  by (cases "supplied payload") auto

lemma successes_append: "successes (xs @ ys) = successes xs @ successes ys"
  by (induction xs rule: successes.induct) auto

lemma serve_db:
  "serve rt reqs w = (rs, w') \<Longrightarrow>
   products_db w' = products_db w @ successes rs \<and>
   length (successes rs) = length (filter (\<lambda>r. supplied (snd r)) reqs)"
proof (induction reqs arbitrary: w rs w')
  case Nil
  then show ?case by simp
next
  case (Cons req reqs)
  obtain now payload where req: "req = (now, payload)" by (cases req)
  obtain r w1 where s1: "search_product rt now payload w = (r, w1)" by (cases "search_product rt now payload w")
  obtain rs2 w2 where s2: "serve rt reqs w1 = (rs2, w2)" by (cases "serve rt reqs w1")
  from Cons.prems req s1 s2 have eq: "rs = r # rs2" "w' = w2" by auto
  from Cons.IH [OF s2] search_product_db [OF s1] eq req
  show ?case
    using successes_append [of "[r]" rs2] by (cases "supplied payload") auto
qed

text \<open>
  C7. From the empty store, after any sequence of search requests \<open>get_all\<close> returns the
  products of the searches that succeeded, in the order of those searches, and as many
  products as there were requests holding an EAN or a SKU.
\<close>

theorem get_all_lists_the_successful_searches:
  "get_all (products_db (snd (serve rt reqs init_world))) = successes (fst (serve rt reqs init_world)) \<and>
   length (get_all (products_db (snd (serve rt reqs init_world)))) =
     length (filter (\<lambda>r. supplied (snd r)) reqs)"
  using serve_db [of rt reqs init_world "fst (serve rt reqs init_world)" "snd (serve rt reqs init_world)"]
  by (simp add: get_all_def init_world_def init_db_def)

theorem get_all_lists_the_successful_searches_witness:
  "get_all (products_db (snd (serve demo_runtime demo_requests init_world))) =
     successes (fst (serve demo_runtime demo_requests init_world)) \<and>
   length (get_all (products_db (snd (serve demo_runtime demo_requests init_world)))) = 2"
proof -
  have "length (filter (\<lambda>r. supplied (snd r)) demo_requests) = 2"
    by (simp add: demo_requests_def supplied_def truthy_def demo_request_def)
  from get_all_lists_the_successful_searches [of demo_runtime demo_requests, unfolded this]
  show ?thesis .
qed

subsection \<open>Successful searches\<close>

lemma search_product_issued:
  assumes "ids_issued rt w" and "search_product rt now payload w = (r, w')"
  shows "ids_issued rt w'"
proof (cases "supplied payload")
  case True
  from search_product_supplied [OF True, of rt now w] assms(2)
  obtain p where p: "products_db w' = products_db w @ [p]" "uuid_calls w' = Suc (uuid_calls w)"
    "id_p p = uuid4 rt (uuid_calls w)"
    by auto
  have "uuid4 rt ` {..<uuid_calls w} \<subseteq> uuid4 rt ` {..<Suc (uuid_calls w)}"
    by (rule image_mono) auto
  with assms(1) p show ?thesis
    by (auto simp: ids_issued_def)
next
  case False
  from search_product_not_supplied [OF False, of rt now w] assms show ?thesis by auto
qed

lemma serve_issued:
  "ids_issued rt w \<Longrightarrow> ids_issued rt (snd (serve rt reqs w))"
proof (induction reqs arbitrary: w)
  case Nil
  then show ?case by simp
next
  case (Cons req reqs)
  obtain now payload where req: "req = (now, payload)" by (cases req)
  obtain r w1 where s1: "search_product rt now payload w = (r, w1)"
    by (cases "search_product rt now payload w")
  have "ids_issued rt w1" using search_product_issued [OF Cons.prems s1] .
  from Cons.IH [OF this] req s1 show ?case
    by (simp add: case_prod_unfold Let_def)
qed

lemma init_world_issued: "ids_issued rt init_world"
  by (simp add: ids_issued_def init_world_def init_db_def)

lemma issued_fresh:
  assumes "inj (uuid4 rt)" and "ids_issued rt w"
  shows "uuid4 rt (uuid_calls w) \<notin> id_p ` set (products_db w)"
proof
  assume "uuid4 rt (uuid_calls w) \<in> id_p ` set (products_db w)"
  with assms(2) have "uuid4 rt (uuid_calls w) \<in> uuid4 rt ` {..<uuid_calls w}"
    by (auto simp: ids_issued_def)
  then obtain k where "k < uuid_calls w" "uuid4 rt (uuid_calls w) = uuid4 rt k" by auto
  with assms(1) show False by (auto dest: injD)
qed

text \<open>
  C1, as the code has it. In any state reached from the empty store by search requests,
  a search request that holds an EAN or a SKU succeeds and the product returned is
  appended to the store. Its description is not empty and ends with a period. Its search
  type is EAN when the EAN is supplied, also when the SKU is supplied too, and SKU when
  only the SKU is. Its identifier is the value \<open>uuid.uuid4\<close> returns at this call, every
  stored identifier being the value of an earlier call; the code compares it with none
  of them, so it differs from all of them when \<open>uuid4\<close> never returns a value twice.
\<close>

theorem successful_search_product:
  assumes "truthy (ean payload) \<or> truthy (sku payload)"
  shows "\<exists>p w'. search_product rt now payload (snd (serve rt reqs init_world)) = (Inr p, w') \<and>
           products_db w' = products_db (snd (serve rt reqs init_world)) @ [p] \<and>
           description p \<noteq> [] \<and> endswith (description p) ''.'' \<and>
           search_type p = (if truthy (ean payload) then ''EAN'' else ''SKU'') \<and>
           id_p p = uuid4 rt (uuid_calls (snd (serve rt reqs init_world))) \<and>
           uuid_calls w' = Suc (uuid_calls (snd (serve rt reqs init_world))) \<and>
           id_p ` set (products_db (snd (serve rt reqs init_world)))
             \<subseteq> uuid4 rt ` {..<uuid_calls (snd (serve rt reqs init_world))} \<and>
           (inj (uuid4 rt) \<longrightarrow>
              id_p p \<notin> id_p ` set (products_db (snd (serve rt reqs init_world))))"
proof -
  let ?w = "snd (serve rt reqs init_world)"
  have sup: "supplied payload" using assms by (simp add: supplied_def)
  have issued: "ids_issued rt ?w" using serve_issued [OF init_world_issued] .
  then have earlier: "id_p ` set (products_db ?w) \<subseteq> uuid4 rt ` {..<uuid_calls ?w}"
    by (simp add: ids_issued_def)
  have fresh: "inj (uuid4 rt) \<longrightarrow> uuid4 rt (uuid_calls ?w) \<notin> id_p ` set (products_db ?w)"
    using issued_fresh [OF _ issued] by blast
  from search_product_supplied [OF sup, of rt now ?w] obtain p where
    p: "search_product rt now payload ?w =
          (Inr p, \<lparr>products_db = products_db ?w @ [p], uuid_calls = Suc (uuid_calls ?w),
                   lookup_log = lookup_log ?w @
                     [if truthy (ean payload) then ByEan (or_empty (ean payload))
                      else BySku (or_empty (sku payload))]\<rparr>)"
       "id_p p = uuid4 rt (uuid_calls ?w)" "description p \<noteq> []"
       "last (description p) = CHR ''.''"
       "search_type p = (if truthy (ean payload) then ''EAN'' else ''SKU'')"
    by blast
  show ?thesis
    using p earlier fresh by (auto simp: endswith_period_iff)
qed

lemma inj_demo_uuid4: "inj (uuid4 demo_runtime)"
  by (simp add: inj_def demo_runtime_def demo_uuid4_def)

lemma demo_world_calls: "uuid_calls demo_world = 2"
  by code_simp

theorem successful_search_product_witness:
  "\<exists>p w'. search_product demo_runtime ''2024-01-01T10:00:20'' \<lparr>ean = None, sku = Some ''ZZ9''\<rparr> demo_world
             = (Inr p, w') \<and>
           products_db w' = products_db demo_world @ [p] \<and>
           description p \<noteq> [] \<and> endswith (description p) ''.'' \<and>
           search_type p = ''SKU'' \<and>
           id_p p = ''aaa'' \<and>
           id_p p \<notin> set [''a'', ''aa'']"
proof -
  have u: "uuid4 demo_runtime 2 = ''aaa''"
    by (simp add: demo_runtime_def demo_uuid4_def numeral_2_eq_2)
  from successful_search_product [of "\<lparr>ean = None, sku = Some ''ZZ9''\<rparr>" demo_runtime
      "''2024-01-01T10:00:20''" demo_requests]
  show ?thesis
    by (auto simp: truthy_def u demo_world_calls inj_demo_uuid4 simp flip: demo_world_def)
qed

text \<open>
  Nothing in the code keeps \<open>uuid4\<close> from returning a value it has returned: with such a
  \<open>uuid4\<close> the second product of the store gets the identifier of the first.
\<close>

theorem repeated_uuid_is_stored_twice:
  "map id_p (products_db (snd (serve demo_repeating demo_requests init_world))) = [''same'', ''same''] \<and>
   \<not> distinct (map id_p (products_db (snd (serve demo_repeating demo_requests init_world))))"
proof -
  have "map id_p (products_db (snd (serve demo_repeating demo_requests init_world))) = [''same'', ''same'']"
    by code_simp
  then show ?thesis by simp
qed

subsection \<open>The remote shop: the call\<close>

text \<open>
  C9, as the code has it. When the base URL and the API key are configured,
  \<open>create_product_in_prestashop\<close> sends exactly one request, to \<open><base URL>/api/products\<close>.
  When the call raises, the caller gets the \<open>HTTPException\<close> 500, a server error, whose
  detail ends with the text of the exception. When the remote shop answers with a status
  other than 200 and 201, the caller gets an \<open>HTTPException\<close> with that very status and
  with the text of the answer in its detail; with the status 200 or 201 the call succeeds.
\<close>

theorem remote_call_is_made_once:
  assumes "truthy (PRESTASHOP_BASE_URL cfg)" and "truthy (PRESTASHOP_API_KEY cfg)"
  shows "\<exists>request.
           snd (create_product_in_prestashop rt cfg product sent) = sent @ [request] \<and>
           url request = or_empty (PRESTASHOP_BASE_URL cfg) @ ''/api/products'' \<and>
           (\<forall>exc. requests_post rt request = Inl (Exception exc) \<longrightarrow>
              fst (create_product_in_prestashop rt cfg product sent) =
                Inl (HTTPException 500
                  (''Erreur lors de l'' @ [CHR 0x27] @ ''appel '' @ a_grave @ '' PrestaShop''
                   @ nbsp @ '': '' @ exc)) \<and>
              server_error (HTTPException 500
                  (''Erreur lors de l'' @ [CHR 0x27] @ ''appel '' @ a_grave @ '' PrestaShop''
                   @ nbsp @ '': '' @ exc))) \<and>
           (\<forall>response. requests_post rt request = Inr response \<longrightarrow>
              fst (create_product_in_prestashop rt cfg product sent) =
                (if status_code response = 200 \<or> status_code response = 201 then Inr ()
                 else Inl (HTTPException (status_code response)
                             (''Erreur API PrestaShop: '' @ resp_text response))))"
  using assms
  by (auto simp: create_product_in_prestashop_def Let_def server_error_def
      split: sum.splits exception.splits)

theorem remote_call_is_made_once_witness:
  "(\<exists>request. snd (create_product_in_prestashop demo_offline demo_config demo_product []) = [request] \<and>
       url request = ''http://shop/api/products'') \<and>
   fst (create_product_in_prestashop demo_offline demo_config demo_product []) =
     Inl (HTTPException 500
       (''Erreur lors de l'' @ [CHR 0x27] @ ''appel '' @ a_grave @ '' PrestaShop'' @ nbsp
        @ '': Connection refused''))"
  using remote_call_is_made_once [of demo_config demo_offline demo_product "[]"]
  by (auto simp: demo_config_def truthy_def or_empty_def demo_offline_def demo_refused_def)

text \<open>
  The error for a remote status that is not a success carries the remote status: when the
  remote shop answers 404, the caller gets the error 404, which is not of the class 5xx.
\<close>

theorem remote_404_is_not_a_server_error:
  "fst (create_product_in_prestashop demo_runtime demo_config demo_product []) =
     Inl (HTTPException 404 ''Erreur API PrestaShop: Not Found'') \<and>
   \<not> success_status 404 \<and>
   \<not> server_error (HTTPException 404 ''Erreur API PrestaShop: Not Found'')"
  by (simp add: create_product_in_prestashop_def Let_def demo_config_def truthy_def demo_runtime_def
      demo_post_def server_error_def success_status_def)

subsection \<open>The description\<close>

lemma translation_failure_falls_back:
  assumes "\<forall>s\<in>set (xs @ ys). returns_text rt s"
    and "\<forall>s\<in>set (translated_texts None english_desc). returns_text rt s"
    and "translate rt f = Inl e"
  shows "generate_french_description rt nm brnd cat (Some (xs @ f # ys)) english_desc =
        Inr (with_period (join '' ''
          (opening_part nm brnd @ category_part rt cat
           @ [features_sentence (map (localized rt) xs @ f # map (localized rt) ys)]
           @ english_part rt english_desc)))"
proof -
  have f: "returns_text rt f" "localized rt f = f"
    using assms(3) by (simp_all add: returns_text_def localized_def)
  have "\<forall>s\<in>set (translated_texts (Some (xs @ f # ys)) english_desc). returns_text rt s"
    using assms(1,2) f(1) by (auto simp: translated_texts_def or_none_def truthy_def)
  from generate_as_parts [OF this] f(2) show ?thesis
    by (simp add: features_part_def)
qed

text \<open>
  C5. The generator means to return a description whatever the translator does: each call
  of the translator is in a \<open>try\<close> block that puts the text in the place of a translation
  that raises. But the translator can also return \<open>None\<close> without raising, as it does
  for the text \<open>***\<close>; the \<open>None\<close> is appended and the next \<open>join\<close>, outside the
  \<open>try\<close> blocks, raises a \<open>TypeError\<close>: for the only feature \<open>***\<close> (item 0), for
  the second feature \<open>***\<close> after a feature whose translation raised (item 1), and for the
  English description \<open>***\<close> (item 1 of the parts, after the opening sentence).
\<close>

theorem none_translation_raises:
  "generate_french_description demo_runtime ''Shoe'' None None (Some [''***'']) None
     = Inl (TypeError 0) \<and>
   generate_french_description demo_runtime ''Shoe'' None None (Some [''waterproof'', ''***'']) None
     = Inl (TypeError 1) \<and>
   generate_french_description demo_runtime ''Shoe'' None None None (Some ''***'')
     = Inl (TypeError 1)"
  by (simp add: generate_french_description_def or_none_def truthy_def demo_runtime_def
      demo_translate_def str_join_def)

text \<open>
  C6, as the code has it. Whenever the translator raises or returns a string (not
  \<open>None\<close>) on each feature and on the English description, the generator returns
  the text made of, in this order and joined with single spaces: the opening sentence,
  with the brand when there is one, when the name is not empty (no opening sentence when
  the name is empty); the category sentence, category in lower case, when there is a
  category; the features sentence when there are features; the translated, or else
  original, English description when there is one. A period is appended exactly when the
  joined text does not end with one. The lower case of a category that is all ASCII is
  the category with A to Z replaced by a to z.
\<close>

theorem description_is_the_joined_sentences:
  assumes "\<forall>s\<in>set (translated_texts feats english_desc). returns_text rt s"
  shows "generate_french_description rt nm brnd cat feats english_desc =
     Inr (with_period (join '' ''
       (opening_part nm brnd @ category_part rt cat @ features_part rt feats
        @ english_part rt english_desc))) \<and>
     with_period (join '' ''
       (opening_part nm brnd @ category_part rt cat @ features_part rt feats
        @ english_part rt english_desc)) \<noteq> [] \<and>
     (list_all ascii (or_empty cat) \<longrightarrow> lower rt (or_empty cat) = map ascii_lower (or_empty cat))"
  using generate_as_parts [OF assms] by (simp add: with_period_ends lower_def)

theorem description_is_the_joined_sentences_witness:
  "generate_french_description demo_runtime ''Shoe'' (Some ''Acme'') (Some ''Shoes KIDS'')
     (Some [''light'', ''waterproof'']) (Some ''Nice.'') =
   Inr (''D'' @ e_acute @ ''couvrez Shoe de la marque Acme. Il s'' @ [CHR 0x27] @ ''agit d''
     @ [CHR 0x27] @ ''un(e) shoes kids. Caract'' @ e_acute @ ''ristiques principales'' @ nbsp
     @ '': fr light; waterproof. fr Nice.'')"
proof -
  have r: "\<forall>s\<in>set (translated_texts (Some [''light'', ''waterproof'']) (Some ''Nice.'')).
             returns_text demo_runtime s"
    by (simp add: translated_texts_def or_none_def truthy_def returns_text_def demo_runtime_def
        demo_translate_def)
  have l: "lower demo_runtime ''Shoes KIDS'' = ''shoes kids''"
    by code_simp
  have t: "translate demo_runtime = demo_translate"
    by (simp add: demo_runtime_def)
  from description_is_the_joined_sentences [OF r, of "''Shoe''" "Some ''Acme''" "Some ''Shoes KIDS''"]
  show ?thesis
    by (simp add: opening_part_def category_part_def english_part_def features_part_def
        features_sentence_def features_label_def localized_def truthy_def or_empty_def l t
        demo_translate_def with_period_def endswith_def e_acute_def nbsp_def)
qed

text \<open>
  With the empty name the generator writes no opening sentence: its result is a lone period,
  not the description that opens with a sentence on the name.
\<close>

theorem empty_name_has_no_opening_sentence:
  "generate_french_description demo_runtime [] None None None None = Inr ''.'' \<and>
   stated_description demo_runtime [] None None None None = ''D'' @ e_acute @ ''couvrez .'' \<and>
   generate_french_description demo_runtime [] None None None None
     \<noteq> Inr (stated_description demo_runtime [] None None None None)"
  by (simp add: generate_french_description_def stated_description_def stated_opening_def
      category_part_def features_part_def english_part_def truthy_def or_none_def with_period_def
      endswith_def e_acute_def str_join_def)

subsection \<open>The reader reads what the writer wrote\<close>

lemma dialect_chars [simp]:
  "delimiter \<noteq> quotechar" "quotechar \<noteq> delimiter"
  "\<not> line_end delimiter" "\<not> line_end quotechar"
  "must_quote delimiter" "must_quote quotechar"
  "CHR 0x0D \<noteq> delimiter" "CHR 0x0D \<noteq> quotechar" "CHR 0x0A \<noteq> delimiter" "CHR 0x0A \<noteq> quotechar"
  "line_end (CHR 0x0D)" "line_end (CHR 0x0A)"
  by (simp_all add: delimiter_def quotechar_def line_end_def must_quote_def)







lemma reader_skips_line_feed:
  "reader StartRecord [] [] (CHR 0x0A # rest) = reader StartRecord [] [] rest"
  by simp





subsection \<open>The exported row\<close>






end
